theory Spec2Isabelle
  imports Complex_Main "HOL-Library.Word"
begin

section \<open>ControlBombas: data model\<close>

text \<open>
  The module drives two pumps from a single polling loop. The class \<open>Bomba\<close> is a
  record; the two instances \<open>b1\<close> and \<open>b2\<close> and the module globals \<open>ciclo\<close> and
  \<open>flotante_previo\<close> form the record \<open>Sistema\<close>. A method call \<open>b1.marcha()\<close> is
  written \<open>marcha B1 s\<close>: the object is looked up in the system state by its name.

  Every access to the hardware (relay pins, input pins, ADC, one-wire bus, LCD,
  \<open>utime.sleep\<close>) is appended to the log \<open>traza\<close>, in program order. Values read from
  the hardware are arguments of the function that reads them.

  Floats are modelled by the real number they denote; only comparison and maximum are
  applied to them. The arithmetic that turns a raw ADC count into amperes is not
  modelled: the list of converted samples is an input of \<open>medir_corriente\<close>.
  Strings are lists of code points (all code points of the source are below 256).
\<close>

datatype id_bomba = B1 | B2

datatype evento =
    Pin_on nat
  | Pin_off nat
  | Leer_pin nat
  | Leer_adc nat nat
  | Convert_temp nat
  | Read_temp "8 word list"
  | Ow_reset nat
  | Dormir nat
  | Lcd_clear
  | Lcd_move_to nat nat
  | Lcd_putstr string

datatype excepcion = ValueError | NameError

record Bomba =
  numero :: int
  tension :: int
  corriente_nominal :: real
  potencia :: real
  id_temp :: "8 word list"
  corriente_falla :: real
  temp_falla :: int
  pin_rele :: nat
  rele :: bool
  pin_sensor :: nat
  estado_bomba :: bool
  estado_falla :: bool
  corriente :: real
  temperatura :: int

record Sistema =
  b1 :: Bomba
  b2 :: Bomba
  ciclo :: int
  flotante_previo :: bool
  traza :: "evento list"

type_synonym resultado = "(excepcion \<times> Sistema) + Sistema"

text \<open>\<open>Bomba.__init__\<close> with its default arguments written out at the two call sites.\<close>

definition Bomba_init ::
  "int \<Rightarrow> 8 word list \<Rightarrow> real \<Rightarrow> nat \<Rightarrow> nat \<Rightarrow> int \<Rightarrow> int \<Rightarrow> real \<Rightarrow> real \<Rightarrow> Bomba" where
  "Bomba_init n idt cf pr ps tf tn cn po =
     \<lparr>numero = n, tension = tn, corriente_nominal = cn, potencia = po, id_temp = idt,
      corriente_falla = cf, temp_falla = tf, pin_rele = pr, rele = False, pin_sensor = ps,
      estado_bomba = False, estado_falla = False, corriente = 0, temperatura = 0\<rparr>"

definition sistema0 :: Sistema where
  "sistema0 =
     \<lparr>b1 = Bomba_init 1 [0x28, 0x0b, 0xb5, 0x75, 0xd0, 0x01, 0x3c, 0x92] 13 22 6 70 380 0 0,
      b2 = Bomba_init 2 [0x28, 0xde, 0x27, 0x75, 0xd0, 0x01, 0x3c, 0x89] 13 21 6 70 380 0 0,
      ciclo = 0, flotante_previo = False, traza = []\<rparr>"

fun la_bomba :: "id_bomba \<Rightarrow> Sistema \<Rightarrow> Bomba" where
  "la_bomba B1 s = b1 s"
| "la_bomba B2 s = b2 s"

fun con_bomba :: "id_bomba \<Rightarrow> (Bomba \<Rightarrow> Bomba) \<Rightarrow> Sistema \<Rightarrow> Sistema" where
  "con_bomba B1 f s = s\<lparr>b1 := f (b1 s)\<rparr>"
| "con_bomba B2 f s = s\<lparr>b2 := f (b2 s)\<rparr>"

fun otra :: "id_bomba \<Rightarrow> id_bomba" where
  "otra B1 = B2"
| "otra B2 = B1"

definition registrar :: "evento list \<Rightarrow> Sistema \<Rightarrow> Sistema" where
  "registrar es s = s\<lparr>traza := traza s @ es\<rparr>"

definition dormir :: "nat \<Rightarrow> Sistema \<Rightarrow> Sistema" where
  "dormir n s = registrar [Dormir n] s"

section \<open>Methods of Bomba\<close>

definition marcha :: "id_bomba \<Rightarrow> Sistema \<Rightarrow> Sistema" where
  "marcha i s =
     con_bomba i (\<lambda>b. b\<lparr>rele := True, estado_bomba := True\<rparr>)
       (registrar [Pin_on (pin_rele (la_bomba i s))] s)"

definition parada :: "id_bomba \<Rightarrow> Sistema \<Rightarrow> Sistema" where
  "parada i s =
     con_bomba i (\<lambda>b. b\<lparr>rele := False, estado_bomba := False\<rparr>)
       (registrar [Pin_off (pin_rele (la_bomba i s))] s)"

definition falla :: "id_bomba \<Rightarrow> Sistema \<Rightarrow> Sistema" where
  "falla i s =
     con_bomba i (\<lambda>b. b\<lparr>estado_bomba := False, estado_falla := True\<rparr>) (parada i s)"

text \<open>
  Python's \<open>max\<close> over a list: it raises \<open>ValueError\<close> on the empty list (here
  \<open>None\<close>) and otherwise keeps the first item that no later item exceeds.
\<close>

fun py_max :: "real list \<Rightarrow> real option" where
  "py_max [] = None"
| "py_max (x # xs) = Some (foldl (\<lambda>m y. if y > m then y else m) x xs)"

text \<open>
  \<open>medir_corriente\<close>: \<open>lista\<close> holds the converted samples appended by the sampling
  loop (1000 of them in the source, read from ADC channel 26).
\<close>

definition medir_corriente :: "id_bomba \<Rightarrow> real list \<Rightarrow> Sistema \<Rightarrow> resultado" where
  "medir_corriente i lista s =
     (let s1 = registrar [Leer_adc 26 (length lista)] s in
      case py_max lista of
        None \<Rightarrow> Inl (ValueError, s1)
      | Some m \<Rightarrow>
          if m \<ge> corriente_falla (la_bomba i s1) then Inr (falla i s1)
          else Inr (con_bomba i (\<lambda>b. b\<lparr>corriente := m\<rparr>) s1))"

text \<open>
  What the body of the \<open>try\<close> in \<open>medir_temperatura\<close> meets on the one-wire bus:
  an exception before \<open>ow\<close> is bound, an exception raised by \<open>convert_temp\<close>, an
  exception raised by \<open>read_temp\<close>, or the reading truncated by \<open>int\<close>.
\<close>

datatype lectura_temp = Falla_onewire | Falla_convert | Falla_lectura | Lectura int

fun error_comunicacion :: "lectura_temp \<Rightarrow> bool" where
  "error_comunicacion Falla_convert = True"
| "error_comunicacion Falla_lectura = True"
| "error_comunicacion _ = False"

text \<open>
  The bare \<open>except\<close> calls \<open>ow.reset()\<close>. When the exception came before \<open>ow\<close> was
  bound, the handler itself raises \<open>NameError\<close>, which leaves the method.
\<close>

definition medir_temperatura :: "id_bomba \<Rightarrow> lectura_temp \<Rightarrow> Sistema \<Rightarrow> resultado" where
  "medir_temperatura i l s =
     (let p = pin_sensor (la_bomba i s); idt = id_temp (la_bomba i s) in
      case l of
        Falla_onewire \<Rightarrow> Inl (NameError, s)
      | Falla_convert \<Rightarrow> Inr (registrar [Convert_temp p, Ow_reset p] s)
      | Falla_lectura \<Rightarrow>
          Inr (registrar [Convert_temp p, Dormir 1, Read_temp idt, Ow_reset p] s)
      | Lectura temp \<Rightarrow>
          (let s1 = registrar [Convert_temp p, Dormir 1, Read_temp idt] s in
           if temp \<ge> temp_falla (la_bomba i s1) then Inr (falla i s1)
           else Inr (con_bomba i (\<lambda>b. b\<lparr>temperatura := temp\<rparr>) s1)))"

section \<open>Display\<close>

text \<open>
  \<open>str.center(width)\<close>: a string at least \<open>width\<close> long is returned as it is;
  otherwise it is padded with spaces, \<open>(width - len) div 2\<close> of them on the left
  (for an even width CPython and MicroPython agree on this split).
\<close>

definition center :: "nat \<Rightarrow> string \<Rightarrow> string" where
  "center w t =
     (if length t \<ge> w then t
      else (let izq = (w - length t) div 2 in
            replicate izq CHR '' '' @ t @ replicate (w - length t - izq) CHR '' ''))"

definition eventos_display :: "string \<Rightarrow> string \<Rightarrow> evento list" where
  "eventos_display linea1 linea2 =
     [Lcd_clear, Lcd_move_to 0 0, Lcd_putstr (center 16 linea1),
      Lcd_move_to 0 1, Lcd_putstr (center 16 linea2)]"

definition display :: "string \<Rightarrow> string \<Rightarrow> Sistema \<Rightarrow> Sistema" where
  "display linea1 linea2 s = registrar (eventos_display linea1 linea2) s"

section \<open>Module-level functions\<close>

definition inicio :: "Sistema \<Rightarrow> Sistema" where
  "inicio s =
     (let s1 = dormir 2 s;
          s2 = parada B1 s1;
          s3 = parada B2 s2;
          s4 = registrar [Lcd_clear, Lcd_move_to 2 0, Lcd_putstr ''Iniciando...''] s3;
          s5 = dormir 3 s4;
          s6 = registrar [Lcd_clear, Lcd_move_to 1 0, Lcd_putstr ''Esperando...''] s5
      in dormir 3 s6)"

text \<open>The input pins: \<open>manual\<close> is pin 12, \<open>flotante\<close> pin 11, \<open>bomba1\<close> pin 14.\<close>

definition verificar_manual :: "bool \<Rightarrow> Sistema \<Rightarrow> bool \<times> Sistema" where
  "verificar_manual v s = (if v then True else False, registrar [Leer_pin 12] s)"

definition verificar_bomba1 :: "bool \<Rightarrow> Sistema \<Rightarrow> bool \<times> Sistema" where
  "verificar_bomba1 v s = (if v then True else False, registrar [Leer_pin 14] s)"

definition marcha_manual :: "bool \<Rightarrow> bool \<Rightarrow> Sistema \<Rightarrow> bool \<times> Sistema" where
  "marcha_manual vm vb s =
     (case verificar_manual vm s of (m, s1) \<Rightarrow>
        if m then
          (case verificar_bomba1 vb s1 of (sel, s2) \<Rightarrow>
             if sel then
               (True, display ''Modo: Manual'' ''Bomba 1: ON''
                        (marcha B1 (dormir 1 (parada B2 s2))))
             else
               (True, display ''Modo: Manual'' ''Bomba 2: ON''
                        (marcha B2 (dormir 1 (parada B1 s2)))))
        else (False, s1))"

definition verificar_flotante :: "bool \<Rightarrow> Sistema \<Rightarrow> bool \<times> Sistema" where
  "verificar_flotante v s =
     (let s0 = registrar [Leer_pin 11] s in
      if v then
        (if \<not> flotante_previo s0
         then (True, s0\<lparr>flotante_previo := True, ciclo := ciclo s0 + 1\<rparr>)
         else (True, s0))
      else
        (if flotante_previo s0
         then (False, s0\<lparr>flotante_previo := False\<rparr>)
         else (False, s0)))"

definition marcha_auto :: "bool \<Rightarrow> bool \<Rightarrow> Sistema \<Rightarrow> bool \<times> Sistema" where
  "marcha_auto vm vf s =
     (case verificar_manual vm s of (m, s1) \<Rightarrow>
        if \<not> m then
          (case verificar_flotante vf s1 of (f, s2) \<Rightarrow>
             if f then
               (if ciclo s2 mod 2 = 0 then
                  (True, display ''Modo: Auto'' ''Bomba 1: ON''
                           (marcha B1 (dormir 1 (parada B2 s2))))
                else
                  (True, display ''Modo: Auto'' ''Bomba 2: ON''
                           (marcha B2 (dormir 1 (parada B1 s2)))))
             else
               (True, display ''Esperando...'' [] (parada B2 (parada B1 s2))))
        else (False, s1))"

section \<open>The loops\<close>

text \<open>
  The program never leaves its \<open>while True\<close> loops. A state of the running program
  is the loop whose head control is at, together with the system state; one step runs
  from a loop head to the next loop head reached.
  \<^item> \<open>Bucle_principal\<close>: the loop of \<open>main\<close>;
  \<^item> \<open>Bucle_falla i\<close>: the loop of \<open>verificar_falla\<close> entered because pump \<open>i\<close> has
    failed (the other pump is run alone);
  \<^item> \<open>Bucle_alarma None\<close>: the alarm loop of the first branch of \<open>verificar_falla\<close>;
    \<open>Bucle_alarma (Some i)\<close>: the alarm loop nested in \<open>Bucle_falla i\<close>;
  \<^item> \<open>Abortado e\<close>: the program ended with the uncaught exception \<open>e\<close>.
\<close>

datatype control =
    Bucle_principal
  | Bucle_falla id_bomba
  | Bucle_alarma "id_bomba option"
  | Abortado excepcion

type_synonym estado = "control \<times> Sistema"

text \<open>What the hardware supplies during one step.\<close>

record entrada =
  manual_1 :: bool
  selector :: bool
  manual_2 :: bool
  flotante :: bool
  muestras_b1 :: "real list"
  sensor_b1 :: lectura_temp
  muestras_b2 :: "real list"
  sensor_b2 :: lectura_temp

fun muestras :: "id_bomba \<Rightarrow> entrada \<Rightarrow> real list" where
  "muestras B1 e = muestras_b1 e"
| "muestras B2 e = muestras_b2 e"

fun sensor :: "id_bomba \<Rightarrow> entrada \<Rightarrow> lectura_temp" where
  "sensor B1 e = sensor_b1 e"
| "sensor B2 e = sensor_b2 e"

fun nombre :: "id_bomba \<Rightarrow> string" where
  "nombre B1 = ''1''"
| "nombre B2 = ''2''"

text \<open>\<open>str\<close> of a Python \<open>int\<close>.\<close>

fun digitos :: "nat \<Rightarrow> string" where
  "digitos n =
     (if n < 10 then [char_of (48 + n)]
      else digitos (n div 10) @ [char_of (48 + n mod 10)])"

definition str_int :: "int \<Rightarrow> string" where
  "str_int k = (if k < 0 then CHR ''-'' # digitos (nat (- k)) else digitos (nat k))"

text \<open>
  The two lines shown after a good measurement. \<open>str\<close> of a float is the runtime's
  formatting and is a parameter, \<open>str_float\<close>.
\<close>

definition mostrar_lecturas :: "(real \<Rightarrow> string) \<Rightarrow> id_bomba \<Rightarrow> Sistema \<Rightarrow> Sistema" where
  "mostrar_lecturas str_float i s =
     display (''I B'' @ nombre i @ '': '' @ str_float (corriente (la_bomba i s)) @ '' A'')
             (''Temp. B'' @ nombre i @ '': '' @ str_int (temperatura (la_bomba i s)) @ '' C'')
             s"

text \<open>One pass through an alarm loop. The first alarm loop spells its last line differently.\<close>

definition servicio_tecnico :: string where
  "servicio_tecnico = ''servicio t'' @ [CHR 0xE9] @ ''cnico''"

definition servivcio_tecnico :: string where
  "servivcio_tecnico = ''servivcio t'' @ [CHR 0xE9] @ ''cnico''"

definition iter_alarma :: "id_bomba option \<Rightarrow> Sistema \<Rightarrow> Sistema" where
  "iter_alarma origen s =
     (let s1 = display ''Falla en'' ''ambas bombas'' s;
          s2 = dormir 5 s1;
          s3 = display ''Llamar al''
                 (case origen of None \<Rightarrow> servivcio_tecnico | Some _ \<Rightarrow> servicio_tecnico) s2
      in dormir 5 s3)"

text \<open>
  \<open>verificar_falla\<close> up to the head of the loop it enters; \<open>None\<close> is the plain
  \<open>return None\<close> of its last branch.
\<close>

definition verificar_falla :: "Sistema \<Rightarrow> control option \<times> Sistema" where
  "verificar_falla s =
     (if estado_falla (b1 s) \<and> estado_falla (b2 s) then
        (Some (Bucle_alarma None), parada B2 (parada B1 s))
      else if estado_falla (b1 s) then (Some (Bucle_falla B1), parada B1 s)
      else if estado_falla (b2 s) then (Some (Bucle_falla B2), parada B2 s)
      else (None, s))"

text \<open>
  One pass through the loop of \<open>verificar_falla\<close> for the failed pump \<open>i\<close>; \<open>otra i\<close>
  is the pump that is still run.
\<close>

definition iter_falla :: "(real \<Rightarrow> string) \<Rightarrow> id_bomba \<Rightarrow> entrada \<Rightarrow> Sistema \<Rightarrow> estado" where
  "iter_falla str_float i e s =
     (case verificar_flotante (flotante e) s of (f, s1) \<Rightarrow>
        if f then
          (if \<not> estado_falla (la_bomba (otra i) s1) then
             (let s2 = marcha (otra i) s1;
                  s3 = display ''Modo: Auto'' (''Bomba '' @ nombre (otra i) @ '': ON'') s2
              in case medir_corriente (otra i) (muestras (otra i) e) s3 of
                   Inl (x, sx) \<Rightarrow> (Abortado x, sx)
                 | Inr s4 \<Rightarrow>
                     (case medir_temperatura (otra i) (sensor (otra i) e) s4 of
                        Inl (x, sx) \<Rightarrow> (Abortado x, sx)
                      | Inr s5 \<Rightarrow>
                          if \<not> estado_falla (la_bomba (otra i) s5) then
                            (Bucle_falla i,
                             dormir 2 (mostrar_lecturas str_float (otra i) (dormir 2 s5)))
                          else (Bucle_falla i, s5)))
           else (Bucle_alarma (Some i), s1))
        else (Bucle_falla i, parada (otra i) s1))"

text \<open>
  The block of \<open>main\<close> for one pump: \<open>Inr\<close> when control goes on inside the pass of
  the main loop, \<open>Inl\<close> when it has left the main loop.
\<close>

definition bloque ::
  "(real \<Rightarrow> string) \<Rightarrow> id_bomba \<Rightarrow> bool \<Rightarrow> entrada \<Rightarrow> Sistema \<Rightarrow> estado + Sistema" where
  "bloque str_float i en_marcha e s =
     (if en_marcha then
        (case medir_corriente i (muestras i e) s of
           Inl (x, sx) \<Rightarrow> Inl (Abortado x, sx)
         | Inr s1 \<Rightarrow>
             (case medir_temperatura i (sensor i e) s1 of
                Inl (x, sx) \<Rightarrow> Inl (Abortado x, sx)
              | Inr s2 \<Rightarrow>
                  if \<not> estado_falla (la_bomba i s2) then
                    Inr (dormir 2 (mostrar_lecturas str_float i (dormir 2 s2)))
                  else
                    (case verificar_falla s2 of
                       (Some c, s3) \<Rightarrow> Inl (c, s3)
                     | (None, s3) \<Rightarrow> Inr s3)))
      else Inr s)"

definition iter_principal :: "(real \<Rightarrow> string) \<Rightarrow> entrada \<Rightarrow> Sistema \<Rightarrow> estado" where
  "iter_principal str_float e s =
     (let s1 = snd (marcha_manual (manual_1 e) (selector e) s);
          s2 = snd (marcha_auto (manual_2 e) (flotante e) s1);
          b1_en_marcha = estado_bomba (b1 s2);
          b2_en_marcha = estado_bomba (b2 s2)
      in case bloque str_float B1 b1_en_marcha e s2 of
           Inl st \<Rightarrow> st
         | Inr s3 \<Rightarrow>
             (case bloque str_float B2 b2_en_marcha e s3 of
                Inl st \<Rightarrow> st
              | Inr s4 \<Rightarrow> (Bucle_principal, s4)))"

fun paso :: "(real \<Rightarrow> string) \<Rightarrow> entrada \<Rightarrow> estado \<Rightarrow> estado" where
  "paso str_float e (Bucle_principal, s) = iter_principal str_float e s"
| "paso str_float e (Bucle_falla i, s) = iter_falla str_float i e s"
| "paso str_float e (Bucle_alarma origen, s) = (Bucle_alarma origen, iter_alarma origen s)"
| "paso str_float e (Abortado x, s) = (Abortado x, s)"

fun ejecutar :: "(real \<Rightarrow> string) \<Rightarrow> entrada list \<Rightarrow> estado \<Rightarrow> estado" where
  "ejecutar str_float [] st = st"
| "ejecutar str_float (e # es) st = ejecutar str_float es (paso str_float e st)"

text \<open>\<open>main\<close> calls \<open>inicio\<close> and enters its loop.\<close>

definition inicial :: estado where
  "inicial = (Bucle_principal, inicio sistema0)"

section \<open>Runs and observations used by the properties\<close>

text \<open>A sequence of polls of the float switch.\<close>

fun sondeos :: "bool list \<Rightarrow> Sistema \<Rightarrow> Sistema" where
  "sondeos [] s = s"
| "sondeos (v # vs) s = sondeos vs (snd (verificar_flotante v s))"

text \<open>
  The number of low-to-high transitions in a sequence of levels, \<open>p\<close> being the level
  before the first of them. This definition follows the specification's wording, not
  the code.
\<close>

fun flancos_subida :: "bool \<Rightarrow> bool list \<Rightarrow> nat" where
  "flancos_subida p [] = 0"
| "flancos_subida p (v # vs) = (if v \<and> \<not> p then 1 else 0) + flancos_subida v vs"

text \<open>
  A sequence of calls of \<open>marcha_auto\<close>; each tick gives the level of the manual
  switch and the level of the float switch.
\<close>

fun ticks_auto :: "(bool \<times> bool) list \<Rightarrow> Sistema \<Rightarrow> Sistema" where
  "ticks_auto [] s = s"
| "ticks_auto ((vm, vf) # ts) s = ticks_auto ts (snd (marcha_auto vm vf s))"

fun activa :: "bool \<times> bool \<Rightarrow> bool" where
  "activa (vm, vf) = (\<not> vm \<and> vf)"

text \<open>Events by kind: a relay switched on; a sensor or input read.\<close>

fun es_marcha :: "evento \<Rightarrow> bool" where
  "es_marcha (Pin_on _) = True"
| "es_marcha _ = False"

fun es_sensado :: "evento \<Rightarrow> bool" where
  "es_sensado (Leer_pin _) = True"
| "es_sensado (Leer_adc _ _) = True"
| "es_sensado (Convert_temp _) = True"
| "es_sensado (Read_temp _) = True"
| "es_sensado _ = False"

text \<open>The events logged after the state \<open>s\<close>, seen from a later state \<open>s'\<close>.\<close>

definition desde :: "Sistema \<Rightarrow> Sistema \<Rightarrow> evento list" where
  "desde s s' = drop (length (traza s)) (traza s')"

definition ambas_en_falla :: "Sistema \<Rightarrow> bool" where
  "ambas_en_falla s = (estado_falla (b1 s) \<and> estado_falla (b2 s))"

fun en_alarma :: "control \<Rightarrow> bool" where
  "en_alarma (Bucle_alarma _) = True"
| "en_alarma _ = False"

text \<open>A failed pump is stopped, and a relay is on exactly when its pump is marked running.\<close>

definition bomba_segura :: "Bomba \<Rightarrow> bool" where
  "bomba_segura b = ((\<not> estado_falla b \<or> \<not> estado_bomba b) \<and> rele b = estado_bomba b)"

text \<open>What holds at each loop head.\<close>

fun invariante :: "estado \<Rightarrow> bool" where
  "invariante (Bucle_principal, s) =
     (\<not> estado_falla (b1 s) \<and> \<not> estado_falla (b2 s) \<and>
      bomba_segura (b1 s) \<and> bomba_segura (b2 s))"
| "invariante (Bucle_falla i, s) =
     (estado_falla (la_bomba i s) \<and> bomba_segura (b1 s) \<and> bomba_segura (b2 s))"
| "invariante (Bucle_alarma origen, s) =
     (origen \<noteq> None \<and> estado_falla (b1 s) \<and> estado_falla (b2 s) \<and> bomba_segura (b1 s) \<and> bomba_segura (b2 s))"
| "invariante (Abortado x, s) = (bomba_segura (b1 s) \<and> bomba_segura (b2 s))"

text \<open>Concrete inputs and a concrete float formatting for the example runs.\<close>

definition str_fijo :: "real \<Rightarrow> string" where
  "str_fijo x = ''0.0''"

definition entrada_sobrecorriente :: entrada where
  "entrada_sobrecorriente =
     \<lparr>manual_1 = False, selector = False, manual_2 = False, flotante = True,
      muestras_b1 = [131 / 10], sensor_b1 = Lectura 20,
      muestras_b2 = [131 / 10], sensor_b2 = Lectura 20\<rparr>"

definition entrada_flotante_bajo :: entrada where
  "entrada_flotante_bajo =
     \<lparr>manual_1 = False, selector = False, manual_2 = False, flotante = False,
      muestras_b1 = [5], sensor_b1 = Lectura 20,
      muestras_b2 = [5], sensor_b2 = Lectura 20\<rparr>"

definition entrada_normal :: entrada where
  "entrada_normal =
     \<lparr>manual_1 = False, selector = False, manual_2 = False, flotante = True,
      muestras_b1 = [5], sensor_b1 = Lectura 20,
      muestras_b2 = [5], sensor_b2 = Lectura 20\<rparr>"

text \<open>An automatic pass in which the sensor of pump 2 reads -1000.\<close>

definition entrada_fria :: entrada where
  "entrada_fria =
     \<lparr>manual_1 = False, selector = False, manual_2 = False, flotante = True,
      muestras_b1 = [5], sensor_b1 = Lectura 20,
      muestras_b2 = [5], sensor_b2 = Lectura (- 1000)\<rparr>"

section \<open>Basic facts about the state\<close>

lemma la_bomba_con_bomba:
  "la_bomba j (con_bomba i f s) = (if j = i then f (la_bomba i s) else la_bomba j s)"
  by (cases i; cases j) simp_all

lemma la_bomba_registrar [simp]: "la_bomba j (registrar es s) = la_bomba j s"
  by (cases j) (simp_all add: registrar_def)

lemma la_bomba_dormir [simp]: "la_bomba j (dormir n s) = la_bomba j s"
  by (simp add: dormir_def)

lemma la_bomba_display [simp]: "la_bomba j (display x y s) = la_bomba j s"
  by (simp add: display_def)

lemma globales_con_bomba [simp]:
  "ciclo (con_bomba i f s) = ciclo s"
  "flotante_previo (con_bomba i f s) = flotante_previo s"
  "traza (con_bomba i f s) = traza s"
  by (cases i; simp)+

lemma globales_registrar [simp]:
  "ciclo (registrar es s) = ciclo s"
  "flotante_previo (registrar es s) = flotante_previo s"
  "traza (registrar es s) = traza s @ es"
  by (simp_all add: registrar_def)

lemma globales_dormir [simp]:
  "ciclo (dormir n s) = ciclo s"
  "flotante_previo (dormir n s) = flotante_previo s"
  "traza (dormir n s) = traza s @ [Dormir n]"
  by (simp_all add: dormir_def)

lemma globales_display [simp]:
  "ciclo (display x y s) = ciclo s"
  "flotante_previo (display x y s) = flotante_previo s"
  "traza (display x y s) = traza s @ eventos_display x y"
  by (simp_all add: display_def)

lemma la_bomba_marcha:
  "la_bomba j (marcha i s) =
     (if j = i then (la_bomba i s)\<lparr>rele := True, estado_bomba := True\<rparr> else la_bomba j s)"
  by (simp add: marcha_def la_bomba_con_bomba)

lemma la_bomba_parada:
  "la_bomba j (parada i s) =
     (if j = i then (la_bomba i s)\<lparr>rele := False, estado_bomba := False\<rparr> else la_bomba j s)"
  by (simp add: parada_def la_bomba_con_bomba)

lemma la_bomba_falla:
  "la_bomba j (falla i s) =
     (if j = i
      then (la_bomba i s)\<lparr>rele := False, estado_bomba := False, estado_falla := True\<rparr>
      else la_bomba j s)"
  by (simp add: falla_def la_bomba_con_bomba la_bomba_parada)

lemma globales_marcha [simp]:
  "ciclo (marcha i s) = ciclo s"
  "flotante_previo (marcha i s) = flotante_previo s"
  "traza (marcha i s) = traza s @ [Pin_on (pin_rele (la_bomba i s))]"
  by (simp_all add: marcha_def)

lemma globales_parada [simp]:
  "ciclo (parada i s) = ciclo s"
  "flotante_previo (parada i s) = flotante_previo s"
  "traza (parada i s) = traza s @ [Pin_off (pin_rele (la_bomba i s))]"
  by (simp_all add: parada_def)

lemma globales_falla [simp]:
  "ciclo (falla i s) = ciclo s"
  "flotante_previo (falla i s) = flotante_previo s"
  "traza (falla i s) = traza s @ [Pin_off (pin_rele (la_bomba i s))]"
  by (simp_all add: falla_def)

section \<open>The maximum of the sampling window\<close>

lemma foldl_max_eq: "foldl (\<lambda>m y. if y > m then y else m) (x::real) xs = Max (set (x # xs))"
proof (induction xs arbitrary: x)
  case Nil
  then show ?case by simp
next
  case (Cons a xs)
  have "Max (insert x (insert a (set xs))) = max x (Max (insert a (set xs)))"
    by (rule Max_insert) simp_all
  moreover have "Max (insert (max x a) (set xs)) = Max (insert x (insert a (set xs)))"
    by (cases "set xs = {}") (simp_all add: max.assoc)
  ultimately show ?case using Cons.IH [of "if a > x then a else x"]
    by (auto simp: max_def split: if_splits)
qed

lemma py_max_Max: "lista \<noteq> [] \<Longrightarrow> py_max lista = Some (Max (set lista))"
proof (cases lista)
  case Nil
  assume "lista \<noteq> []"
  with Nil show ?thesis by simp
next
  case (Cons x xs)
  then show ?thesis by (simp only: py_max.simps foldl_max_eq)
qed

text \<open>
  C1. Whatever the samples of one call of \<open>medir_corriente\<close> (at least one), the call
  returns normally and acts on the true maximum of the window: when the maximum reaches
  the pump's \<open>corriente_falla\<close>, the pump is afterwards in fault and stopped, whatever
  its state before, and its stored \<open>corriente\<close> is the old one; otherwise the maximum
  is stored as \<open>corriente\<close> and the fault flag and the running flag are as before.
\<close>

theorem medir_corriente_maximo:
  assumes "lista \<noteq> []"
  shows "\<exists>s'. medir_corriente i lista s = Inr s' \<and>
           (if Max (set lista) \<ge> corriente_falla (la_bomba i s)
            then estado_falla (la_bomba i s') \<and> \<not> estado_bomba (la_bomba i s') \<and>
                 \<not> rele (la_bomba i s') \<and>
                 corriente (la_bomba i s') = corriente (la_bomba i s)
            else corriente (la_bomba i s') = Max (set lista) \<and>
                 estado_falla (la_bomba i s') = estado_falla (la_bomba i s) \<and>
                 estado_bomba (la_bomba i s') = estado_bomba (la_bomba i s))"
proof (cases "Max (set lista) \<ge> corriente_falla (la_bomba i s)")
  case True
  with assms show ?thesis
    by (simp add: medir_corriente_def py_max_Max la_bomba_falla)
next
  case False
  with assms show ?thesis
    by (simp add: medir_corriente_def py_max_Max la_bomba_con_bomba)
qed

text \<open>
  The scenario of the specification: samples 10, 11, 12, 13.1, 12 against the
  threshold 13 of pump 1, which is running.
\<close>

theorem medir_corriente_maximo_witness:
  "[10, 11, 12, 131 / 10, 12] \<noteq> ([] :: real list) \<and>
   (\<exists>s'. medir_corriente B1 [10, 11, 12, 131 / 10, 12] (marcha B1 sistema0) = Inr s' \<and>
      estado_falla (la_bomba B1 s') \<and> \<not> estado_bomba (la_bomba B1 s') \<and>
      \<not> rele (la_bomba B1 s') \<and> corriente (la_bomba B1 s') = 0)"
  using medir_corriente_maximo [of "[10, 11, 12, 131 / 10, 12]" B1 "marcha B1 sistema0"]
  by (simp add: la_bomba_marcha sistema0_def Bomba_init_def)

section \<open>Starting a pump\<close>

text \<open>
  C7, as the code has it. \<open>marcha\<close> does not look at \<open>estado_falla\<close>: on every pump,
  failed or not, it switches the relay on and sets \<open>estado_bomba\<close>, leaves
  \<open>estado_falla\<close> as it was, and raises nothing.
\<close>

theorem marcha_sin_guarda:
  "estado_bomba (la_bomba i (marcha i s)) \<and> rele (la_bomba i (marcha i s)) \<and>
   estado_falla (la_bomba i (marcha i s)) = estado_falla (la_bomba i s) \<and>
   traza (marcha i s) = traza s @ [Pin_on (pin_rele (la_bomba i s))]"
  by (simp add: la_bomba_marcha)

text \<open>
  C7 as stated fails: pump 1, put in fault by \<open>falla\<close>, is running after \<open>marcha\<close>.
\<close>

theorem marcha_en_falla_contraejemplo:
  "estado_falla (la_bomba B1 (falla B1 sistema0)) \<and>
   estado_bomba (la_bomba B1 (marcha B1 (falla B1 sistema0)))"
  by (simp add: la_bomba_marcha la_bomba_falla)


section \<open>Reading the temperature\<close>

text \<open>
  C8. When \<open>convert_temp\<close> or \<open>read_temp\<close> raises, \<open>medir_temperatura\<close> returns
  normally: the exception does not reach the caller. Both pumps are exactly as before
  the call (so the pump is not put in fault, and \<open>estado_falla\<close> and \<open>temperatura\<close>
  keep their values), and so are \<open>ciclo\<close> and \<open>flotante_previo\<close>. The handler's only
  action is the reset of the one-wire bus.
\<close>

theorem medir_temperatura_error_tragado:
  assumes "error_comunicacion l"
  shows "\<exists>s'. medir_temperatura i l s = Inr s' \<and>
           b1 s' = b1 s \<and> b2 s' = b2 s \<and>
           ciclo s' = ciclo s \<and> flotante_previo s' = flotante_previo s \<and>
           last (traza s') = Ow_reset (pin_sensor (la_bomba i s))"
  using assms
  by (cases l) (simp_all add: medir_temperatura_def Let_def registrar_def desde_def)

text \<open>A failed read while pump 1 is running: it keeps running, without fault.\<close>

theorem medir_temperatura_error_tragado_witness:
  "error_comunicacion Falla_lectura \<and>
   (\<exists>s'. medir_temperatura B1 Falla_lectura (marcha B1 sistema0) = Inr s' \<and>
      \<not> estado_falla (b1 s') \<and> estado_bomba (b1 s') \<and> temperatura (b1 s') = 0 \<and>
      last (traza s') = Ow_reset 6)"
  using medir_temperatura_error_tragado [of Falla_lectura B1 "marcha B1 sistema0"]
  by (auto simp add: sistema0_def Bomba_init_def marcha_def registrar_def)

section \<open>The width of the displayed lines\<close>

text \<open>
  C9, as the code has it. \<open>display\<close> writes \<open>linea.center(16)\<close> for each of its two
  lines. A line of at most 16 characters is padded to exactly 16; a longer line is
  written unchanged: nothing is truncated, and the length written is the larger of 16
  and the length of the line.
\<close>

theorem display_no_trunca:
  "length (center 16 t) = max 16 (length t) \<and>
   (if length t \<le> 16 then length (center 16 t) = 16 else center 16 t = t) \<and>
   traza (display linea1 linea2 s) =
     traza s @ [Lcd_clear, Lcd_move_to 0 0, Lcd_putstr (center 16 linea1),
                Lcd_move_to 0 1, Lcd_putstr (center 16 linea2)]"
  by (simp add: center_def Let_def eventos_display_def)

lemma str_int_menos_mil: "str_int (- 1000) = ''-1000''"
  by code_simp

text \<open>
  C9 as stated fails: the last line of the first alarm loop of \<open>verificar_falla\<close> has
  17 characters, and \<open>display\<close> writes all 17. So does the temperature line of the
  first pass of \<open>main\<close> when the sensor reads -1000.
\<close>

theorem display_desborda_contraejemplo:
  "traza (display ''Llamar al'' servivcio_tecnico sistema0) ! 4 = Lcd_putstr servivcio_tecnico \<and>
   length servivcio_tecnico = 17 \<and>
   \<not> length (center 16 servivcio_tecnico) \<le> 16 \<and>
   Lcd_putstr ''Temp. B2: -1000 C'' \<in> set (traza (snd (paso str_fijo entrada_fria inicial))) \<and>
   length ''Temp. B2: -1000 C'' = 17"
  by (simp add: center_def servivcio_tecnico_def eventos_display_def sistema0_def
      inicial_def inicio_def Bomba_init_def Let_def iter_principal_def marcha_manual_def
      marcha_auto_def verificar_manual_def verificar_flotante_def bloque_def
      medir_corriente_def medir_temperatura_def mostrar_lecturas_def display_def dormir_def
      registrar_def marcha_def parada_def entrada_fria_def str_int_menos_mil str_fijo_def)

section \<open>Counting the rising edges of the float switch\<close>

lemma verificar_flotante_paso:
  "fst (verificar_flotante v s) = v \<and>
   flotante_previo (snd (verificar_flotante v s)) = v \<and>
   ciclo (snd (verificar_flotante v s)) = ciclo s + (if v \<and> \<not> flotante_previo s then 1 else 0) \<and>
   b1 (snd (verificar_flotante v s)) = b1 s \<and> b2 (snd (verificar_flotante v s)) = b2 s \<and>
   traza (snd (verificar_flotante v s)) = traza s @ [Leer_pin 11]"
  by (simp add: verificar_flotante_def Let_def registrar_def)

lemma sondeos_ciclo:
  "ciclo (sondeos vs s) = ciclo s + int (flancos_subida (flotante_previo s) vs)"
  by (induction vs arbitrary: s) (simp_all add: verificar_flotante_paso)

lemma sondeos_previo:
  "flotante_previo (sondeos vs s) = last (flotante_previo s # vs)"
  by (induction vs arbitrary: s) (simp_all add: verificar_flotante_paso)

text \<open>
  C4. One poll returns the level read, remembers it in \<open>flotante_previo\<close>, and adds
  one to \<open>ciclo\<close> exactly when the level read is high and the remembered level was
  low. Over any sequence of polls, \<open>ciclo\<close> grows by the number of low-to-high
  transitions of the sequence, and \<open>flotante_previo\<close> ends as the last level read.
\<close>

theorem verificar_flotante_flancos:
  "fst (verificar_flotante v s) = v \<and>
   flotante_previo (snd (verificar_flotante v s)) = v \<and>
   ciclo (snd (verificar_flotante v s)) = ciclo s + (if v \<and> \<not> flotante_previo s then 1 else 0) \<and>
   ciclo (sondeos vs s) = ciclo s + int (flancos_subida (flotante_previo s) vs) \<and>
   flotante_previo (sondeos vs s) = last (flotante_previo s # vs)"
  by (simp add: verificar_flotante_paso sondeos_ciclo sondeos_previo)

text \<open>Low, high, high, low, low, high: two rising edges.\<close>

theorem verificar_flotante_flancos_witness:
  "ciclo (sondeos [False, True, True, False, False, True] sistema0) = 2 \<and>
   flotante_previo (sondeos [False, True, True, False, False, True] sistema0)"
  using verificar_flotante_flancos [of True sistema0 "[False, True, True, False, False, True]"]
  by (simp add: sistema0_def)

section \<open>Automatic mode\<close>

lemma la_bomba_verificar_flotante [simp]:
  "la_bomba j (snd (verificar_flotante v s)) = la_bomba j s"
  by (cases j) (simp_all add: verificar_flotante_paso)

lemma bombas_registrar [simp]: "b1 (registrar es s) = b1 s" "b2 (registrar es s) = b2 s"
  by (simp_all add: registrar_def)

lemma bombas_dormir [simp]: "b1 (dormir n s) = b1 s" "b2 (dormir n s) = b2 s"
  by (simp_all add: dormir_def)

lemma bombas_display [simp]: "b1 (display x y s) = b1 s" "b2 (display x y s) = b2 s"
  by (simp_all add: display_def)

lemma bombas_marcha:
  "b1 (marcha i s) = (if i = B1 then (b1 s)\<lparr>rele := True, estado_bomba := True\<rparr> else b1 s)"
  "b2 (marcha i s) = (if i = B2 then (b2 s)\<lparr>rele := True, estado_bomba := True\<rparr> else b2 s)"
  using la_bomba_marcha [of B1 i s] la_bomba_marcha [of B2 i s] by auto

lemma bombas_parada:
  "b1 (parada i s) = (if i = B1 then (b1 s)\<lparr>rele := False, estado_bomba := False\<rparr> else b1 s)"
  "b2 (parada i s) = (if i = B2 then (b2 s)\<lparr>rele := False, estado_bomba := False\<rparr> else b2 s)"
  using la_bomba_parada [of B1 i s] la_bomba_parada [of B2 i s] by auto

lemma bombas_falla:
  "b1 (falla i s) =
     (if i = B1 then (b1 s)\<lparr>rele := False, estado_bomba := False, estado_falla := True\<rparr>
      else b1 s)"
  "b2 (falla i s) =
     (if i = B2 then (b2 s)\<lparr>rele := False, estado_bomba := False, estado_falla := True\<rparr>
      else b2 s)"
  using la_bomba_falla [of B1 i s] la_bomba_falla [of B2 i s] by auto

lemma marcha_auto_manual:
  "marcha_auto True vf s = (False, registrar [Leer_pin 12] s)"
  by (simp add: marcha_auto_def verificar_manual_def)

lemma marcha_auto_auto:
  "marcha_auto False vf s =
     (let s2 = snd (verificar_flotante vf (registrar [Leer_pin 12] s)) in
      if vf then
        (if ciclo s2 mod 2 = 0 then
           (True, display ''Modo: Auto'' ''Bomba 1: ON'' (marcha B1 (dormir 1 (parada B2 s2))))
         else
           (True, display ''Modo: Auto'' ''Bomba 2: ON'' (marcha B2 (dormir 1 (parada B1 s2)))))
      else (True, display ''Esperando...'' [] (parada B2 (parada B1 s2))))"
  using verificar_flotante_paso [of vf "registrar [Leer_pin 12] s"]
  by (simp add: marcha_auto_def verificar_manual_def Let_def case_prod_beta)

lemma marcha_auto_efecto:
  "(case marcha_auto vm vf s of (r, s') \<Rightarrow>
     if vm then
       \<not> r \<and> b1 s' = b1 s \<and> b2 s' = b2 s \<and> ciclo s' = ciclo s \<and>
       flotante_previo s' = flotante_previo s \<and> traza s' = traza s @ [Leer_pin 12]
     else
       r \<and> flotante_previo s' = vf \<and>
       ciclo s' = ciclo s + (if vf \<and> \<not> flotante_previo s then 1 else 0) \<and>
       (if vf then
          (if ciclo s' mod 2 = 0 then
             estado_bomba (b1 s') \<and> rele (b1 s') \<and> \<not> estado_bomba (b2 s') \<and> \<not> rele (b2 s') \<and>
             traza s' = traza s @ [Leer_pin 12, Leer_pin 11, Pin_off (pin_rele (b2 s)), Dormir 1,
                                   Pin_on (pin_rele (b1 s))]
                                @ eventos_display ''Modo: Auto'' ''Bomba 1: ON''
           else
             estado_bomba (b2 s') \<and> rele (b2 s') \<and> \<not> estado_bomba (b1 s') \<and> \<not> rele (b1 s') \<and>
             traza s' = traza s @ [Leer_pin 12, Leer_pin 11, Pin_off (pin_rele (b1 s)), Dormir 1,
                                   Pin_on (pin_rele (b2 s))]
                                @ eventos_display ''Modo: Auto'' ''Bomba 2: ON'')
        else
          \<not> estado_bomba (b1 s') \<and> \<not> rele (b1 s') \<and> \<not> estado_bomba (b2 s') \<and> \<not> rele (b2 s') \<and>
          traza s' = traza s @ [Leer_pin 12, Leer_pin 11, Pin_off (pin_rele (b1 s)),
                                Pin_off (pin_rele (b2 s))]
                             @ eventos_display ''Esperando...'' []))"
proof (cases vm)
  case True
  then show ?thesis by (simp add: marcha_auto_manual registrar_def)
next
  case False
  define s2 where "s2 = snd (verificar_flotante vf (registrar [Leer_pin 12] s))"
  have s2: "flotante_previo s2 = vf"
    "ciclo s2 = ciclo s + (if vf \<and> \<not> flotante_previo s then 1 else 0)"
    "b1 s2 = b1 s" "b2 s2 = b2 s"
    "traza s2 = traza s @ [Leer_pin 12, Leer_pin 11]"
    using verificar_flotante_paso [of vf "registrar [Leer_pin 12] s"]
    by (simp_all add: s2_def)
  have m: "marcha_auto vm vf s =
     (if vf then
        (if ciclo s2 mod 2 = 0 then
           (True, display ''Modo: Auto'' ''Bomba 1: ON'' (marcha B1 (dormir 1 (parada B2 s2))))
         else
           (True, display ''Modo: Auto'' ''Bomba 2: ON'' (marcha B2 (dormir 1 (parada B1 s2)))))
      else (True, display ''Esperando...'' [] (parada B2 (parada B1 s2))))"
    using False by (simp add: marcha_auto_auto s2_def Let_def)
  show ?thesis
  proof (cases vf)
    case vf: True
    show ?thesis
    proof (cases "ciclo s2 mod 2 = 0")
      case True
      with vf False show ?thesis
        unfolding m by (simp add: bombas_marcha bombas_parada s2)
    next
      case False
      with vf \<open>\<not> vm\<close> show ?thesis
        unfolding m by (simp add: bombas_marcha bombas_parada s2)
    qed
  next
    case nvf: False
    with False show ?thesis
      unfolding m by (simp add: bombas_marcha bombas_parada s2)
  qed
qed




section \<open>The first activations in automatic mode\<close>

lemma marcha_auto_campos:
  "ciclo (snd (marcha_auto vm vf s)) =
     ciclo s + (if \<not> vm \<and> vf \<and> \<not> flotante_previo s then 1 else 0)"
  "flotante_previo (snd (marcha_auto vm vf s)) = (if vm then flotante_previo s else vf)"
  using marcha_auto_efecto [where vm = vm and vf = vf and s = s]
  by (auto split: prod.splits if_splits)

lemma marcha_auto_inactiva:
  assumes "\<not> activa (vm, vf)" "ciclo s = 0" "\<not> flotante_previo s"
  shows "ciclo (snd (marcha_auto vm vf s)) = 0 \<and> \<not> flotante_previo (snd (marcha_auto vm vf s))"
  using assms by (auto simp: marcha_auto_campos)

lemma ticks_auto_inactivos:
  assumes "list_all (\<lambda>t. \<not> activa t) ts" "ciclo s = 0" "\<not> flotante_previo s"
  shows "ciclo (ticks_auto ts s) = 0 \<and> \<not> flotante_previo (ticks_auto ts s)"
  using assms
proof (induction ts arbitrary: s)
  case Nil
  then show ?case by simp
next
  case (Cons t ts)
  obtain vm vf where t: "t = (vm, vf)" by (cases t)
  from Cons.prems have "\<not> activa (vm, vf)" by (simp add: t)
  from marcha_auto_inactiva [OF this Cons.prems(2,3)] Cons.prems(1) show ?case
    by (simp add: t Cons.IH)
qed

lemma ticks_auto_append: "ticks_auto (ts @ us) s = ticks_auto us (ticks_auto ts s)"
  by (induction ts arbitrary: s) auto

lemma marcha_auto_primera:
  assumes "ciclo s = 0" "\<not> flotante_previo s"
  shows "ciclo (snd (marcha_auto False True s)) = 1 \<and>
         estado_bomba (b2 (snd (marcha_auto False True s))) \<and>
         rele (b2 (snd (marcha_auto False True s))) \<and>
         \<not> estado_bomba (b1 (snd (marcha_auto False True s))) \<and>
         \<not> rele (b1 (snd (marcha_auto False True s))) \<and>
         traza (snd (marcha_auto False True s)) =
           traza s @ [Leer_pin 12, Leer_pin 11, Pin_off (pin_rele (b1 s)), Dormir 1,
                      Pin_on (pin_rele (b2 s))]
                   @ eventos_display ''Modo: Auto'' ''Bomba 2: ON''"
  using assms marcha_auto_efecto [where vm = False and vf = True and s = s]
  by (auto split: prod.splits if_splits)

text \<open>
  C10. From \<open>ciclo = 0\<close> and \<open>flotante_previo = false\<close>, after any number of calls of
  \<open>marcha_auto\<close> that do not activate (manual switch active, or float low), the first
  call with the manual switch inactive and the float high raises \<open>ciclo\<close> to 1 before
  the parity test and therefore takes the odd branch: pump 1 is stopped, one second is
  waited, pump 2 is started.
\<close>

theorem primera_activacion_bomba2:
  assumes "ciclo s = 0" and "\<not> flotante_previo s" and "list_all (\<lambda>t. \<not> activa t) ts"
  shows "ciclo (ticks_auto (ts @ [(False, True)]) s) = 1 \<and>
         estado_bomba (b2 (ticks_auto (ts @ [(False, True)]) s)) \<and>
         rele (b2 (ticks_auto (ts @ [(False, True)]) s)) \<and>
         \<not> estado_bomba (b1 (ticks_auto (ts @ [(False, True)]) s)) \<and>
         \<not> rele (b1 (ticks_auto (ts @ [(False, True)]) s)) \<and>
         traza (ticks_auto (ts @ [(False, True)]) s) =
           traza (ticks_auto ts s)
             @ [Leer_pin 12, Leer_pin 11, Pin_off (pin_rele (b1 (ticks_auto ts s))), Dormir 1,
                Pin_on (pin_rele (b2 (ticks_auto ts s)))]
             @ eventos_display ''Modo: Auto'' ''Bomba 2: ON''"
proof -
  from ticks_auto_inactivos [OF assms(3,1,2)]
  have "ciclo (ticks_auto ts s) = 0" "\<not> flotante_previo (ticks_auto ts s)" by simp_all
  from marcha_auto_primera [OF this] show ?thesis
    by (simp add: ticks_auto_append)
qed

text \<open>After \<open>inicio\<close>: float low, a tick in manual mode, float low, then float high.\<close>

theorem primera_activacion_bomba2_witness:
  "ciclo (inicio sistema0) = 0 \<and> \<not> flotante_previo (inicio sistema0) \<and>
   list_all (\<lambda>t. \<not> activa t) [(False, False), (True, True), (False, False)] \<and>
   ciclo (ticks_auto [(False, False), (True, True), (False, False), (False, True)]
            (inicio sistema0)) = 1 \<and>
   estado_bomba (b2 (ticks_auto [(False, False), (True, True), (False, False), (False, True)]
            (inicio sistema0))) \<and>
   \<not> estado_bomba (b1 (ticks_auto [(False, False), (True, True), (False, False), (False, True)]
            (inicio sistema0)))"
proof -
  have h: "ciclo (inicio sistema0) = 0" "\<not> flotante_previo (inicio sistema0)"
    "list_all (\<lambda>t. \<not> activa t) [(False, False), (True, True), (False, False)]"
    by (simp_all add: inicio_def sistema0_def Let_def)
  from primera_activacion_bomba2 [OF h] h show ?thesis by simp
qed

lemma escenario_flotante:
  assumes "ciclo s = 0" and "\<not> flotante_previo s"
  shows "ciclo (ticks_auto [(False, False), (False, True)] s) = 1 \<and>
         estado_bomba (b2 (ticks_auto [(False, False), (False, True)] s)) \<and>
         \<not> estado_bomba (b1 (ticks_auto [(False, False), (False, True)] s)) \<and>
         ciclo (ticks_auto [(False, False), (False, True), (False, False), (False, True)] s) = 2 \<and>
         estado_bomba
           (b1 (ticks_auto [(False, False), (False, True), (False, False), (False, True)] s)) \<and>
         \<not> estado_bomba
           (b2 (ticks_auto [(False, False), (False, True), (False, False), (False, True)] s))"
proof -
  define s1 where "s1 = snd (marcha_auto False False s)"
  define s2 where "s2 = snd (marcha_auto False True s1)"
  define s3 where "s3 = snd (marcha_auto False False s2)"
  define s4 where "s4 = snd (marcha_auto False True s3)"
  have 1: "ciclo s1 = 0" "\<not> flotante_previo s1"
    using assms by (simp_all add: s1_def marcha_auto_campos)
  have 2: "ciclo s2 = 1" "estado_bomba (b2 s2)" "\<not> estado_bomba (b1 s2)"
    using marcha_auto_primera [OF 1] by (simp_all add: s2_def)
  have 3: "ciclo s3 = 1" "\<not> flotante_previo s3"
    using 2 by (simp_all add: s3_def marcha_auto_campos)
  have 4: "ciclo s4 = 2" "estado_bomba (b1 s4)" "\<not> estado_bomba (b2 s4)"
    using 3 marcha_auto_efecto [where vm = False and vf = True and s = s3]
    by (auto simp: s4_def split: prod.splits if_splits)
  show ?thesis using 2 4 by (simp add: s1_def s2_def s3_def s4_def)
qed

text \<open>
  C6, as the code has it. From \<open>ciclo = 0\<close> and \<open>flotante_previo = false\<close>, four
  automatic ticks reading the float low, high, low, high leave \<open>ciclo = 2\<close>. The first
  activation runs with \<open>ciclo = 1\<close> and starts pump 2; the second runs with
  \<open>ciclo = 2\<close>, parity 0, and starts pump 1: the two activations select different pumps.
\<close>

theorem escenario_flotante_alterna:
  assumes "ciclo s = 0" and "\<not> flotante_previo s"
  shows "ciclo (ticks_auto [(False, False), (False, True)] s) = 1 \<and>
         estado_bomba (b2 (ticks_auto [(False, False), (False, True)] s)) \<and>
         \<not> estado_bomba (b1 (ticks_auto [(False, False), (False, True)] s)) \<and>
         ciclo (ticks_auto [(False, False), (False, True), (False, False), (False, True)] s) = 2 \<and>
         estado_bomba
           (b1 (ticks_auto [(False, False), (False, True), (False, False), (False, True)] s)) \<and>
         \<not> estado_bomba
           (b2 (ticks_auto [(False, False), (False, True), (False, False), (False, True)] s))"
  using assms by (rule escenario_flotante)

text \<open>The scenario run right after \<open>inicio\<close>.\<close>

theorem escenario_flotante_alterna_witness:
  "ciclo (inicio sistema0) = 0 \<and> \<not> flotante_previo (inicio sistema0) \<and>
   ciclo (ticks_auto [(False, False), (False, True), (False, False), (False, True)]
            (inicio sistema0)) = 2 \<and>
   estado_bomba (b1 (ticks_auto [(False, False), (False, True), (False, False), (False, True)]
            (inicio sistema0)))"
proof -
  have h: "ciclo (inicio sistema0) = 0" "\<not> flotante_previo (inicio sistema0)"
    by (simp_all add: inicio_def sistema0_def Let_def)
  from escenario_flotante_alterna [OF h] h show ?thesis by simp
qed

text \<open>
  C6 as stated fails in its last part: after \<open>inicio\<close>, the first activation of the
  scenario has pump 2 running and pump 1 stopped, the second has pump 1 running and
  pump 2 stopped, so the second activation does not select the pump of the first.
\<close>

theorem escenario_misma_bomba_contraejemplo:
  "estado_bomba (b2 (ticks_auto [(False, False), (False, True)] (inicio sistema0))) \<and>
   \<not> estado_bomba (b1 (ticks_auto [(False, False), (False, True)] (inicio sistema0))) \<and>
   estado_bomba (b1 (ticks_auto [(False, False), (False, True), (False, False), (False, True)]
            (inicio sistema0))) \<and>
   \<not> estado_bomba (b2 (ticks_auto [(False, False), (False, True), (False, False), (False, True)]
            (inicio sistema0)))"
proof -
  have h: "ciclo (inicio sistema0) = 0" "\<not> flotante_previo (inicio sistema0)"
    by (simp_all add: inicio_def sistema0_def Let_def)
  from escenario_flotante [OF h] show ?thesis by simp
qed


section \<open>The fault latch in the loops\<close>

lemma bombas_verificar_manual [simp]:
  "b1 (snd (verificar_manual v s)) = b1 s" "b2 (snd (verificar_manual v s)) = b2 s"
  by (simp_all add: verificar_manual_def)

lemma bombas_verificar_bomba1 [simp]:
  "b1 (snd (verificar_bomba1 v s)) = b1 s" "b2 (snd (verificar_bomba1 v s)) = b2 s"
  by (simp_all add: verificar_bomba1_def)

lemma bombas_verificar_flotante [simp]:
  "b1 (snd (verificar_flotante v s)) = b1 s" "b2 (snd (verificar_flotante v s)) = b2 s"
  by (simp_all add: verificar_flotante_paso)

lemma bombas_mostrar_lecturas [simp]:
  "b1 (mostrar_lecturas f i s) = b1 s" "b2 (mostrar_lecturas f i s) = b2 s"
  by (simp_all add: mostrar_lecturas_def)

lemma bombas_iter_alarma [simp]:
  "b1 (iter_alarma origen s) = b1 s" "b2 (iter_alarma origen s) = b2 s"
  by (simp_all add: iter_alarma_def Let_def)

lemma la_bomba_mostrar_lecturas [simp]:
  "la_bomba j (mostrar_lecturas f i s) = la_bomba j s"
  by (cases j) simp_all

lemma falla_marcha_manual:
  "estado_falla (la_bomba j (snd (marcha_manual vm vb s))) = estado_falla (la_bomba j s)"
  by (cases j) (simp_all add: marcha_manual_def case_prod_beta bombas_marcha bombas_parada)

lemma falla_marcha_auto:
  "estado_falla (la_bomba j (snd (marcha_auto vm vf s))) = estado_falla (la_bomba j s)"
  by (cases j) (simp_all add: marcha_auto_def case_prod_beta bombas_marcha bombas_parada)

lemma segura_marcha_manual:
  assumes "\<not> estado_falla (la_bomba j s)" "bomba_segura (la_bomba j s)"
  shows "bomba_segura (la_bomba j (snd (marcha_manual vm vb s)))"
  using assms
  by (cases j)
     (simp_all add: marcha_manual_def case_prod_beta bombas_marcha bombas_parada
        bomba_segura_def)

lemma segura_marcha_auto:
  assumes "\<not> estado_falla (la_bomba j s)" "bomba_segura (la_bomba j s)"
  shows "bomba_segura (la_bomba j (snd (marcha_auto vm vf s)))"
  using assms
  by (cases j)
     (simp_all add: marcha_auto_def case_prod_beta bombas_marcha bombas_parada
        bomba_segura_def)

text \<open>What a measurement can do to a pump.\<close>

lemma medir_corriente_Inr:
  assumes "medir_corriente i lista s = Inr s'"
  shows "(estado_falla (la_bomba j s) \<longrightarrow> estado_falla (la_bomba j s')) \<and>
         (bomba_segura (la_bomba j s) \<longrightarrow> bomba_segura (la_bomba j s')) \<and>
         (j \<noteq> i \<longrightarrow> la_bomba j s' = la_bomba j s)"
  using assms
  by (auto simp: medir_corriente_def Let_def la_bomba_falla la_bomba_con_bomba bomba_segura_def
      split: option.splits if_splits)

lemma medir_corriente_Inl:
  assumes "medir_corriente i lista s = Inl (x, sx)"
  shows "la_bomba j sx = la_bomba j s"
  using assms
  by (auto simp: medir_corriente_def Let_def split: option.splits if_splits)

lemma medir_temperatura_Inr:
  assumes "medir_temperatura i l s = Inr s'"
  shows "(estado_falla (la_bomba j s) \<longrightarrow> estado_falla (la_bomba j s')) \<and>
         (bomba_segura (la_bomba j s) \<longrightarrow> bomba_segura (la_bomba j s')) \<and>
         (j \<noteq> i \<longrightarrow> la_bomba j s' = la_bomba j s)"
  using assms
  by (cases l)
     (auto simp: medir_temperatura_def Let_def la_bomba_falla la_bomba_con_bomba
        bomba_segura_def split: if_splits)

lemma medir_temperatura_Inl:
  assumes "medir_temperatura i l s = Inl (x, sx)"
  shows "la_bomba j sx = la_bomba j s"
  using assms
  by (cases l) (auto simp: medir_temperatura_def Let_def split: if_splits)

text \<open>Both measurements of one pump, one after the other.\<close>

lemma medir_ambas_Inr:
  assumes "medir_corriente i lista s = Inr s1" "medir_temperatura i l s1 = Inr s2"
  shows "(estado_falla (la_bomba j s) \<longrightarrow> estado_falla (la_bomba j s2)) \<and>
         (bomba_segura (la_bomba j s) \<longrightarrow> bomba_segura (la_bomba j s2)) \<and>
         (j \<noteq> i \<longrightarrow> la_bomba j s2 = la_bomba j s)"
  using medir_corriente_Inr [OF assms(1), of j] medir_temperatura_Inr [OF assms(2), of j]
  by auto

lemma verificar_falla_Some:
  assumes "verificar_falla s = (Some c, s')" "bomba_segura (b1 s)" "bomba_segura (b2 s)"
    and "\<not> (estado_falla (b1 s) \<and> estado_falla (b2 s))"
  shows "invariante (c, s') \<and> c \<noteq> Bucle_principal"
  using assms
  by (auto simp: verificar_falla_def bombas_parada bomba_segura_def split: if_splits)

lemma verificar_falla_None:
  assumes "verificar_falla s = (None, s')"
  shows "s' = s \<and> \<not> estado_falla (b1 s) \<and> \<not> estado_falla (b2 s)"
  using assms by (auto simp: verificar_falla_def split: if_splits)

lemma bloque_Inr:
  assumes "bloque f i en e s = Inr s'"
  shows "(estado_falla (la_bomba j s) \<longrightarrow> estado_falla (la_bomba j s')) \<and>
         (bomba_segura (la_bomba j s) \<longrightarrow> bomba_segura (la_bomba j s')) \<and>
         (\<not> estado_falla (b1 s) \<and> \<not> estado_falla (b2 s) \<longrightarrow>
            \<not> estado_falla (la_bomba j s'))"
proof (cases en)
  case False
  with assms show ?thesis by (cases j) (simp_all add: bloque_def)
next
  case True
  from assms True obtain s1 s2 where
    m: "medir_corriente i (muestras i e) s = Inr s1" "medir_temperatura i (sensor i e) s1 = Inr s2"
    by (auto simp: bloque_def split: sum.splits prod.splits)
  note a = medir_ambas_Inr [OF m]
  show ?thesis
  proof (cases "estado_falla (la_bomba i s2)")
    case False
    with assms True m have "s' = dormir 2 (mostrar_lecturas f i (dormir 2 s2))"
      by (simp add: bloque_def)
    with a [of j] a [of i] False show ?thesis by (cases j; cases i) auto
  next
    case ef: True
    with assms True m obtain r where "verificar_falla s2 = (None, r)"
      by (auto simp: bloque_def split: prod.splits option.splits)
    from verificar_falla_None [OF this] ef show ?thesis by (cases i) simp_all
  qed
qed

lemma bloque_Inl:
  assumes "bloque f i en e s = Inl st" "bomba_segura (b1 s)" "bomba_segura (b2 s)"
    and "\<not> estado_falla (b1 s)" "\<not> estado_falla (b2 s)"
  shows "invariante st \<and> fst st \<noteq> Bucle_principal"
proof (cases en)
  case False
  with assms show ?thesis by (simp add: bloque_def)
next
  case True
  show ?thesis
  proof (cases "medir_corriente i (muestras i e) s")
    case (Inl a)
    obtain x sx where a: "a = (x, sx)" by (cases a)
    from medir_corriente_Inl [OF Inl [unfolded a], of B1]
      medir_corriente_Inl [OF Inl [unfolded a], of B2] assms True Inl a
    show ?thesis
      by (auto simp: bloque_def)
  next
    case (Inr s1)
    note c = medir_corriente_Inr [OF Inr]
    show ?thesis
    proof (cases "medir_temperatura i (sensor i e) s1")
      case (Inl a)
      obtain x sx where a: "a = (x, sx)" by (cases a)
      from medir_temperatura_Inl [OF Inl [unfolded a], of B1]
        medir_temperatura_Inl [OF Inl [unfolded a], of B2]
        c [of B1] c [of B2] assms True Inl a Inr
      show ?thesis
        by (auto simp: bloque_def)
    next
      case t: (Inr s2)
      note a = medir_ambas_Inr [OF Inr t]
      from a [of B1] a [of B2] assms have seg: "bomba_segura (b1 s2)" "bomba_segura (b2 s2)"
        by simp_all
      from a [of "otra i"] assms(4,5) have una: "\<not> (estado_falla (b1 s2) \<and> estado_falla (b2 s2))"
        by (cases i) auto
      from assms True Inr t obtain c where "verificar_falla s2 = (Some c, snd st)" "fst st = c"
        by (auto simp: bloque_def split: if_splits prod.splits option.splits)
      with verificar_falla_Some [OF this(1) seg una] show ?thesis by (cases st) simp
    qed
  qed
qed

lemma invariante_iter_principal:
  assumes "invariante (Bucle_principal, s)"
  shows "invariante (iter_principal f e s)"
proof -
  define s1 where "s1 = snd (marcha_manual (manual_1 e) (selector e) s)"
  define s2 where "s2 = snd (marcha_auto (manual_2 e) (flotante e) s1)"
  from assms have 0: "\<not> estado_falla (la_bomba j s)" "bomba_segura (la_bomba j s)" for j
    by (cases j; simp)+
  have 1: "\<not> estado_falla (la_bomba j s1)" "bomba_segura (la_bomba j s1)" for j
    using 0 [of j] by (simp_all add: s1_def falla_marcha_manual segura_marcha_manual)
  have 2: "\<not> estado_falla (la_bomba j s2)" "bomba_segura (la_bomba j s2)" for j
    using 1 [of j] by (simp_all add: s2_def falla_marcha_auto segura_marcha_auto)
  have it: "iter_principal f e s =
      (case bloque f B1 (estado_bomba (b1 s2)) e s2 of
         Inl st \<Rightarrow> st
       | Inr s3 \<Rightarrow>
           (case bloque f B2 (estado_bomba (b2 s2)) e s3 of
              Inl st \<Rightarrow> st
            | Inr s4 \<Rightarrow> (Bucle_principal, s4)))"
    unfolding iter_principal_def Let_def s1_def s2_def by (rule refl)
  show ?thesis
  proof (cases "bloque f B1 (estado_bomba (b1 s2)) e s2")
    case (Inl st)
    with bloque_Inl [OF Inl] 2 [of B1] 2 [of B2] show ?thesis by (simp add: it)
  next
    case (Inr s3)
    note r3 = bloque_Inr [OF Inr]
    have 3: "\<not> estado_falla (la_bomba j s3)" "bomba_segura (la_bomba j s3)" for j
      using r3 [of j] 2 [of B1] 2 [of B2] 2 [of j] by simp_all
    show ?thesis
    proof (cases "bloque f B2 (estado_bomba (b2 s2)) e s3")
      case (Inl st)
      with bloque_Inl [OF Inl] 3 [of B1] 3 [of B2] Inr show ?thesis by (simp add: it)
    next
      case r: (Inr s4)
      note r4 = bloque_Inr [OF r]
      have "\<not> estado_falla (la_bomba j s4)" "bomba_segura (la_bomba j s4)" for j
        using r4 [of j] 3 [of B1] 3 [of B2] 3 [of j] by simp_all
      from this [of B1] this [of B2] Inr r show ?thesis by (simp add: it)
    qed
  qed
qed


lemma verificar_falla_mono:
  "estado_falla (la_bomba j (snd (verificar_falla s))) = estado_falla (la_bomba j s)"
  by (cases j) (simp_all add: verificar_falla_def bombas_parada)

lemma bloque_Inl_mono:
  assumes "bloque f i en e s = Inl st"
  shows "estado_falla (la_bomba j s) \<longrightarrow> estado_falla (la_bomba j (snd st))"
proof (cases en)
  case False
  with assms show ?thesis by (simp add: bloque_def)
next
  case True
  show ?thesis
  proof (cases "medir_corriente i (muestras i e) s")
    case (Inl a)
    obtain x sx where a: "a = (x, sx)" by (cases a)
    from medir_corriente_Inl [OF Inl [unfolded a], of j] assms True Inl a
    show ?thesis by (auto simp: bloque_def)
  next
    case (Inr s1)
    note c = medir_corriente_Inr [OF Inr, of j]
    show ?thesis
    proof (cases "medir_temperatura i (sensor i e) s1")
      case (Inl a)
      obtain x sx where a: "a = (x, sx)" by (cases a)
      from medir_temperatura_Inl [OF Inl [unfolded a], of j] c assms True Inl a Inr
      show ?thesis by (auto simp: bloque_def)
    next
      case t: (Inr s2)
      note a = medir_ambas_Inr [OF Inr t, of j]
      from assms True Inr t have "snd st = snd (verificar_falla s2)"
        by (auto simp: bloque_def split: if_splits prod.splits option.splits)
      with a show ?thesis by (simp add: verificar_falla_mono)
    qed
  qed
qed

lemma iter_principal_mono:
  assumes "estado_falla (la_bomba j s)"
  shows "estado_falla (la_bomba j (snd (iter_principal f e s)))"
proof -
  define s1 where "s1 = snd (marcha_manual (manual_1 e) (selector e) s)"
  define s2 where "s2 = snd (marcha_auto (manual_2 e) (flotante e) s1)"
  have 2: "estado_falla (la_bomba j s2)"
    using assms by (simp add: s1_def s2_def falla_marcha_manual falla_marcha_auto)
  have it: "iter_principal f e s =
      (case bloque f B1 (estado_bomba (b1 s2)) e s2 of
         Inl st \<Rightarrow> st
       | Inr s3 \<Rightarrow>
           (case bloque f B2 (estado_bomba (b2 s2)) e s3 of
              Inl st \<Rightarrow> st
            | Inr s4 \<Rightarrow> (Bucle_principal, s4)))"
    unfolding iter_principal_def Let_def s1_def s2_def by (rule refl)
  show ?thesis
  proof (cases "bloque f B1 (estado_bomba (b1 s2)) e s2")
    case (Inl st)
    with bloque_Inl_mono [OF Inl, of j] 2 show ?thesis by (simp add: it)
  next
    case (Inr s3)
    from bloque_Inr [OF Inr, of j] 2 have 3: "estado_falla (la_bomba j s3)" by simp
    show ?thesis
    proof (cases "bloque f B2 (estado_bomba (b2 s2)) e s3")
      case (Inl st)
      with bloque_Inl_mono [OF Inl, of j] 3 Inr show ?thesis by (simp add: it)
    next
      case r: (Inr s4)
      from bloque_Inr [OF r, of j] 3 Inr r show ?thesis by (simp add: it)
    qed
  qed
qed

text \<open>The ways through one pass of the loop for a failed pump.\<close>

lemma iter_falla_bajo:
  assumes "\<not> flotante e"
  shows "iter_falla f i e s =
           (Bucle_falla i, parada (otra i) (snd (verificar_flotante False s)))"
  using assms verificar_flotante_paso [of False s]
  by (simp add: iter_falla_def case_prod_beta)

lemma iter_falla_alarma:
  assumes "flotante e" "estado_falla (la_bomba (otra i) s)"
  shows "iter_falla f i e s = (Bucle_alarma (Some i), snd (verificar_flotante True s))"
  using assms verificar_flotante_paso [of True s]
  by (simp add: iter_falla_def case_prod_beta)

lemma iter_falla_marcha:
  assumes "flotante e" "\<not> estado_falla (la_bomba (otra i) s)"
  shows "iter_falla f i e s =
     (case medir_corriente (otra i) (muestras (otra i) e)
             (display ''Modo: Auto'' (''Bomba '' @ nombre (otra i) @ '': ON'')
                (marcha (otra i) (snd (verificar_flotante True s)))) of
        Inl (x, sx) \<Rightarrow> (Abortado x, sx)
      | Inr s4 \<Rightarrow>
          (case medir_temperatura (otra i) (sensor (otra i) e) s4 of
             Inl (x, sx) \<Rightarrow> (Abortado x, sx)
           | Inr s5 \<Rightarrow>
               if \<not> estado_falla (la_bomba (otra i) s5) then
                 (Bucle_falla i, dormir 2 (mostrar_lecturas f (otra i) (dormir 2 s5)))
               else (Bucle_falla i, s5)))"
  using assms verificar_flotante_paso [of True s]
  by (simp add: iter_falla_def case_prod_beta Let_def)

lemma iter_falla_marcha_efecto:
  assumes "flotante e" "\<not> estado_falla (la_bomba (otra i) s)"
  shows "fst (iter_falla f i e s) \<in> {Bucle_falla i} \<union> range Abortado \<and>
         (estado_falla (la_bomba j s) \<longrightarrow> estado_falla (la_bomba j (snd (iter_falla f i e s)))) \<and>
         (bomba_segura (la_bomba j s) \<longrightarrow> bomba_segura (la_bomba j (snd (iter_falla f i e s))))"
proof -
  define s3 where "s3 = display ''Modo: Auto'' (''Bomba '' @ nombre (otra i) @ '': ON'')
                (marcha (otra i) (snd (verificar_flotante True s)))"
  have 3: "estado_falla (la_bomba j s) \<longrightarrow> estado_falla (la_bomba j s3)"
    "bomba_segura (la_bomba j s) \<longrightarrow> bomba_segura (la_bomba j s3)"
    using assms(2) by (auto simp: s3_def la_bomba_marcha bomba_segura_def)
  note it = iter_falla_marcha [OF assms, of f, folded s3_def]
  show ?thesis
  proof (cases "medir_corriente (otra i) (muestras (otra i) e) s3")
    case (Inl a)
    obtain x sx where a: "a = (x, sx)" by (cases a)
    from medir_corriente_Inl [OF Inl [unfolded a], of j] 3 Inl a show ?thesis
      by (simp add: it)
  next
    case (Inr s4)
    note c = medir_corriente_Inr [OF Inr, of j]
    show ?thesis
    proof (cases "medir_temperatura (otra i) (sensor (otra i) e) s4")
      case (Inl a)
      obtain x sx where a: "a = (x, sx)" by (cases a)
      from medir_temperatura_Inl [OF Inl [unfolded a], of j] c 3 Inl a Inr show ?thesis
        by (simp add: it)
    next
      case t: (Inr s5)
      from medir_ambas_Inr [OF Inr t, of j] 3 Inr t show ?thesis
        by (simp add: it)
    qed
  qed
qed

lemma falla_parada:
  "estado_falla (la_bomba j (parada i s)) = estado_falla (la_bomba j s)"
  by (auto simp: la_bomba_parada)

lemma iter_falla_mono:
  assumes "estado_falla (la_bomba j s)"
  shows "estado_falla (la_bomba j (snd (iter_falla f i e s)))"
proof (cases "flotante e")
  case False
  with assms show ?thesis by (simp add: iter_falla_bajo falla_parada)
next
  case True
  show ?thesis
  proof (cases "estado_falla (la_bomba (otra i) s)")
    case True
    with \<open>flotante e\<close> assms show ?thesis by (simp add: iter_falla_alarma)
  next
    case False
    from iter_falla_marcha_efecto [OF \<open>flotante e\<close> False, of f j] assms show ?thesis by simp
  qed
qed

lemma ambas_otra:
  "estado_falla (la_bomba i s) \<Longrightarrow> estado_falla (la_bomba (otra i) s) \<Longrightarrow>
   estado_falla (b1 s) \<and> estado_falla (b2 s)"
  by (cases i) simp_all

lemma invariante_iter_falla:
  assumes "invariante (Bucle_falla i, s)"
  shows "invariante (iter_falla f i e s)"
proof -
  from assms have 0: "estado_falla (la_bomba i s)" "bomba_segura (la_bomba j s)" for j
    by (cases j; simp)+
  show ?thesis
  proof (cases "flotante e")
    case False
    with 0(1) 0(2) [of B1] 0(2) [of B2] show ?thesis
      by (cases i) (simp_all add: iter_falla_bajo bombas_parada bomba_segura_def)
  next
    case True
    show ?thesis
    proof (cases "estado_falla (la_bomba (otra i) s)")
      case of: True
      from ambas_otra [OF 0(1) of] True of 0(2) [of B1] 0(2) [of B2] show ?thesis
        by (simp add: iter_falla_alarma)
    next
      case False
      note ef = iter_falla_marcha_efecto [OF True False, of f]
      obtain c s' where r: "iter_falla f i e s = (c, s')" by (cases "iter_falla f i e s")
      from ef [of i] ef [of B1] ef [of B2] 0(1) 0(2) [of B1] 0(2) [of B2] r
      show ?thesis by auto
    qed
  qed
qed

lemma invariante_paso: "invariante st \<Longrightarrow> invariante (paso f e st)"
proof -
  assume a: "invariante st"
  obtain c s where st: "st = (c, s)" by (cases st)
  show ?thesis
  proof (cases c)
    case Bucle_principal
    with a st show ?thesis by (simp add: invariante_iter_principal)
  next
    case (Bucle_falla i)
    with a st show ?thesis by (simp add: invariante_iter_falla)
  next
    case (Bucle_alarma origen)
    with a st show ?thesis by simp
  next
    case (Abortado x)
    with a st show ?thesis by simp
  qed
qed

lemma paso_mono:
  "estado_falla (la_bomba j (snd st)) \<Longrightarrow> estado_falla (la_bomba j (snd (paso f e st)))"
proof -
  assume a: "estado_falla (la_bomba j (snd st))"
  obtain c s where st: "st = (c, s)" by (cases st)
  show ?thesis
  proof (cases c)
    case Bucle_principal
    with a st show ?thesis by (simp add: iter_principal_mono)
  next
    case (Bucle_falla i)
    with a st show ?thesis by (simp add: iter_falla_mono)
  next
    case (Bucle_alarma origen)
    with a st show ?thesis by (cases j) simp_all
  next
    case (Abortado x)
    with a st show ?thesis by simp
  qed
qed

lemma invariante_inicial: "invariante inicial"
  by (simp add: inicial_def inicio_def sistema0_def Bomba_init_def Let_def bombas_parada
      bomba_segura_def)

lemma invariante_ejecutar: "invariante st \<Longrightarrow> invariante (ejecutar f es st)"
  by (induction es arbitrary: st) (simp_all add: invariante_paso)

lemma ejecutar_mono:
  "estado_falla (la_bomba j (snd st)) \<Longrightarrow> estado_falla (la_bomba j (snd (ejecutar f es st)))"
  by (induction es arbitrary: st) (simp_all add: paso_mono)

lemma ejecutar_append: "ejecutar f (es @ es') st = ejecutar f es' (ejecutar f es st)"
  by (induction es arbitrary: st) simp_all

lemma invariante_control:
  assumes "invariante st"
  shows "fst st \<noteq> Bucle_alarma None \<and> (ambas_en_falla (snd st) \<longrightarrow> fst st \<noteq> Bucle_principal)"
  using assms by (cases st; cases "fst st") (auto simp: ambas_en_falla_def)

lemma invariante_segura: "invariante st \<Longrightarrow> bomba_segura (la_bomba j (snd st))"
  by (cases st; cases "fst st"; cases j) auto

lemmas defs_corrida =
  inicial_def inicio_def sistema0_def Bomba_init_def Let_def
  iter_principal_def marcha_manual_def marcha_auto_def verificar_manual_def
  verificar_bomba1_def verificar_flotante_def bloque_def medir_corriente_def
  medir_temperatura_def verificar_falla_def iter_falla_def iter_alarma_def
  mostrar_lecturas_def display_def dormir_def registrar_def marcha_def parada_def falla_def
  entrada_sobrecorriente_def entrada_flotante_bajo_def entrada_normal_def
  ambas_en_falla_def desde_def eventos_display_def

lemma corrida1:
  "fst (ejecutar str_fijo [entrada_sobrecorriente] inicial) = Bucle_falla B2 \<and>
   estado_falla (b2 (snd (ejecutar str_fijo [entrada_sobrecorriente] inicial))) \<and>
   \<not> estado_falla (b1 (snd (ejecutar str_fijo [entrada_sobrecorriente] inicial)))"
  by (simp add: defs_corrida)

lemma corrida2:
  "fst (ejecutar str_fijo [entrada_sobrecorriente, entrada_sobrecorriente] inicial)
     = Bucle_falla B2 \<and>
   ambas_en_falla (snd (ejecutar str_fijo [entrada_sobrecorriente, entrada_sobrecorriente] inicial))"
  by (simp add: defs_corrida)

lemma corrida3:
  "fst (ejecutar str_fijo
          [entrada_sobrecorriente, entrada_sobrecorriente, entrada_sobrecorriente] inicial)
     = Bucle_alarma (Some B2) \<and>
   ambas_en_falla (snd (ejecutar str_fijo
          [entrada_sobrecorriente, entrada_sobrecorriente, entrada_sobrecorriente] inicial))"
  by (simp add: defs_corrida)

text \<open>
  C2. States are taken at the loop heads, and a step is one pass through the loop that
  control is in. In every state reached from the start of \<open>main\<close>, under any inputs,
  a pump with \<open>estado_falla\<close> set is not marked running. Once a pump has
  \<open>estado_falla\<close> set, it still has it after any further steps, and it is not running
  and its relay is off after them: nothing in the loops clears the flag.
\<close>

theorem falla_enclavada:
  assumes "st = ejecutar f es inicial" and "st' = ejecutar f es' st"
  shows "(estado_falla (la_bomba i (snd st)) \<longrightarrow> \<not> estado_bomba (la_bomba i (snd st))) \<and>
         (estado_falla (la_bomba i (snd st)) \<longrightarrow>
            estado_falla (la_bomba i (snd st')) \<and> \<not> estado_bomba (la_bomba i (snd st')) \<and>
            \<not> rele (la_bomba i (snd st')))"
proof -
  have inv: "invariante st" "invariante st'"
    using assms by (simp_all add: invariante_ejecutar invariante_inicial)
  from invariante_segura [OF inv(1), of i] invariante_segura [OF inv(2), of i]
    ejecutar_mono [of i st f es'] assms(2)
  show ?thesis by (auto simp: bomba_segura_def)
qed

text \<open>
  Pump 2 fails by overcurrent in the first pass; two more passes, one with the float
  high and one with it low, leave it failed and stopped.
\<close>

theorem falla_enclavada_witness:
  "estado_falla (la_bomba B2 (snd (ejecutar str_fijo [entrada_sobrecorriente] inicial))) \<and>
   \<not> estado_bomba (la_bomba B2 (snd (ejecutar str_fijo [entrada_sobrecorriente] inicial))) \<and>
   estado_falla (la_bomba B2 (snd (ejecutar str_fijo [entrada_normal, entrada_flotante_bajo]
      (ejecutar str_fijo [entrada_sobrecorriente] inicial)))) \<and>
   \<not> estado_bomba (la_bomba B2 (snd (ejecutar str_fijo [entrada_normal, entrada_flotante_bajo]
      (ejecutar str_fijo [entrada_sobrecorriente] inicial))))"
proof -
  have h: "estado_falla (la_bomba B2 (snd (ejecutar str_fijo [entrada_sobrecorriente] inicial)))"
    using corrida1 by simp
  from falla_enclavada [OF refl refl, of B2 str_fijo "[entrada_sobrecorriente]"
      "[entrada_normal, entrada_flotante_bajo]"] h
  show ?thesis by simp
qed

section \<open>Both pumps failed\<close>

lemma traza_iter_alarma:
  "traza (iter_alarma origen s) =
     traza s @ eventos_display ''Falla en'' ''ambas bombas'' @ [Dormir 5]
       @ eventos_display ''Llamar al''
           (case origen of None \<Rightarrow> servivcio_tecnico | Some _ \<Rightarrow> servicio_tecnico)
       @ [Dormir 5]"
  by (simp add: iter_alarma_def Let_def)

lemma paso_doble_falla:
  assumes "invariante (c, s)" "ambas_en_falla s"
  shows "\<exists>X. traza (snd (paso f e (c, s))) = traza s @ X \<and>
             list_all (\<lambda>ev. \<not> es_marcha ev) X \<and>
             (en_alarma c \<longrightarrow>
                en_alarma (fst (paso f e (c, s))) \<and> list_all (\<lambda>ev. \<not> es_sensado ev) X)"
proof (cases c)
  case Bucle_principal
  with assms show ?thesis by (simp add: ambas_en_falla_def)
next
  case (Bucle_falla i)
  from assms(2) have o: "estado_falla (la_bomba (otra i) s)"
    by (cases i) (simp_all add: ambas_en_falla_def)
  show ?thesis
  proof (cases "flotante e")
    case True
    with o Bucle_falla show ?thesis
      by (simp add: iter_falla_alarma verificar_flotante_paso)
  next
    case False
    with Bucle_falla show ?thesis
      by (simp add: iter_falla_bajo verificar_flotante_paso)
  qed
next
  case (Bucle_alarma origen)
  then show ?thesis by (simp add: traza_iter_alarma eventos_display_def)
next
  case (Abortado x)
  then show ?thesis by simp
qed

lemma ejecutar_doble_falla:
  assumes "invariante st" "ambas_en_falla (snd st)"
  shows "\<exists>X. traza (snd (ejecutar f es st)) = traza (snd st) @ X \<and>
             list_all (\<lambda>ev. \<not> es_marcha ev) X \<and>
             (en_alarma (fst st) \<longrightarrow>
                en_alarma (fst (ejecutar f es st)) \<and> list_all (\<lambda>ev. \<not> es_sensado ev) X)"
  using assms
proof (induction es arbitrary: st)
  case Nil
  then show ?case by simp
next
  case (Cons e es)
  obtain c s where st: "st = (c, s)" by (cases st)
  from Cons.prems st paso_doble_falla [of c s f e] obtain X where
    X: "traza (snd (paso f e st)) = traza s @ X" "list_all (\<lambda>ev. \<not> es_marcha ev) X"
       "en_alarma c \<longrightarrow> en_alarma (fst (paso f e st)) \<and> list_all (\<lambda>ev. \<not> es_sensado ev) X"
    by auto
  have a: "ambas_en_falla (snd (paso f e st))"
    using Cons.prems(2) paso_mono [of B1 st f e] paso_mono [of B2 st f e]
    by (simp add: ambas_en_falla_def)
  from Cons.IH [OF invariante_paso [OF Cons.prems(1)] a] obtain Y where
    Y: "traza (snd (ejecutar f es (paso f e st))) = traza (snd (paso f e st)) @ Y"
       "list_all (\<lambda>ev. \<not> es_marcha ev) Y"
       "en_alarma (fst (paso f e st)) \<longrightarrow>
          en_alarma (fst (ejecutar f es (paso f e st))) \<and> list_all (\<lambda>ev. \<not> es_sensado ev) Y"
    by auto
  show ?case
    by (rule exI [of _ "X @ Y"]) (use X Y st in auto)
qed

text \<open>
  C3, as the code has it. A reached state in which both pumps have \<open>estado_falla\<close>
  set is never at the head of the main loop nor in the alarm loop of the first branch of
  \<open>verificar_falla\<close>. From such a state, in every continuation: both pumps stay failed and stopped with
  their relays off, the log only grows, and no relay is ever switched on again. If
  control is in an alarm loop it stays in an alarm loop and nothing is read from any
  sensor or input from then on. If control is in the loop for a single failed pump, the
  next pass enters the alarm loop when the float switch reads high and stays in that
  loop when it reads low.
\<close>

theorem doble_falla_terminal:
  assumes "st = ejecutar f es inicial" and "ambas_en_falla (snd st)"
      and "st' = ejecutar f es' st"
  shows "fst st \<noteq> Bucle_principal \<and> fst st \<noteq> Bucle_alarma None \<and>
         ambas_en_falla (snd st') \<and>
         \<not> estado_bomba (b1 (snd st')) \<and> \<not> estado_bomba (b2 (snd st')) \<and>
         \<not> rele (b1 (snd st')) \<and> \<not> rele (b2 (snd st')) \<and>
         take (length (traza (snd st))) (traza (snd st')) = traza (snd st) \<and>
         list_all (\<lambda>ev. \<not> es_marcha ev) (desde (snd st) (snd st')) \<and>
         (en_alarma (fst st) \<longrightarrow>
            en_alarma (fst st') \<and> list_all (\<lambda>ev. \<not> es_sensado ev) (desde (snd st) (snd st'))) \<and>
         (fst st = Bucle_falla i \<longrightarrow>
            fst (paso f e st) = (if flotante e then Bucle_alarma (Some i) else Bucle_falla i))"
proof -
  have inv: "invariante st" "invariante st'"
    using assms by (simp_all add: invariante_ejecutar invariante_inicial)
  have a': "ambas_en_falla (snd st')"
    using assms(2,3) ejecutar_mono [of B1 st f es'] ejecutar_mono [of B2 st f es']
    by (simp add: ambas_en_falla_def)
  from invariante_segura [OF inv(2), of B1] invariante_segura [OF inv(2), of B2] a'
  have paradas: "\<not> estado_bomba (b1 (snd st'))" "\<not> estado_bomba (b2 (snd st'))"
    "\<not> rele (b1 (snd st'))" "\<not> rele (b2 (snd st'))"
    by (auto simp: bomba_segura_def ambas_en_falla_def)
  from ejecutar_doble_falla [OF inv(1) assms(2), of f es'] assms(3) obtain X where
    X: "traza (snd st') = traza (snd st) @ X" "list_all (\<lambda>ev. \<not> es_marcha ev) X"
       "en_alarma (fst st) \<longrightarrow> en_alarma (fst st') \<and> list_all (\<lambda>ev. \<not> es_sensado ev) X"
    by auto
  have d: "desde (snd st) (snd st') = X" by (simp add: desde_def X(1))
  have entra: "fst st = Bucle_falla i \<longrightarrow>
      fst (paso f e st) = (if flotante e then Bucle_alarma (Some i) else Bucle_falla i)"
  proof
    assume c: "fst st = Bucle_falla i"
    from assms(2) have o: "estado_falla (la_bomba (otra i) (snd st))"
      by (cases i) (simp_all add: ambas_en_falla_def)
    from c o show "fst (paso f e st) = (if flotante e then Bucle_alarma (Some i) else Bucle_falla i)"
      by (cases st) (simp add: iter_falla_alarma iter_falla_bajo)
  qed
  from a' paradas X d entra invariante_control [OF inv(1)] assms(2) show ?thesis by simp
qed

text \<open>
  Two passes with overcurrent leave both pumps failed in the loop for pump 2; a third
  pass with the float high enters the alarm loop.
\<close>

theorem doble_falla_terminal_witness:
  "ambas_en_falla (snd (ejecutar str_fijo [entrada_sobrecorriente, entrada_sobrecorriente] inicial)) \<and>
   fst (ejecutar str_fijo [entrada_sobrecorriente, entrada_sobrecorriente] inicial) = Bucle_falla B2 \<and>
   fst (paso str_fijo entrada_normal
          (ejecutar str_fijo [entrada_sobrecorriente, entrada_sobrecorriente] inicial))
     = Bucle_alarma (Some B2) \<and>
   list_all (\<lambda>ev. \<not> es_marcha ev)
     (desde (snd (ejecutar str_fijo [entrada_sobrecorriente, entrada_sobrecorriente] inicial))
        (snd (ejecutar str_fijo [entrada_flotante_bajo, entrada_normal, entrada_normal]
           (ejecutar str_fijo [entrada_sobrecorriente, entrada_sobrecorriente] inicial)))) \<and>
   en_alarma (fst (ejecutar str_fijo
      [entrada_sobrecorriente, entrada_sobrecorriente, entrada_sobrecorriente] inicial)) \<and>
   en_alarma (fst (ejecutar str_fijo [entrada_normal, entrada_flotante_bajo]
      (ejecutar str_fijo
         [entrada_sobrecorriente, entrada_sobrecorriente, entrada_sobrecorriente] inicial))) \<and>
   list_all (\<lambda>ev. \<not> es_sensado ev)
     (desde (snd (ejecutar str_fijo
         [entrada_sobrecorriente, entrada_sobrecorriente, entrada_sobrecorriente] inicial))
        (snd (ejecutar str_fijo [entrada_normal, entrada_flotante_bajo]
           (ejecutar str_fijo
         [entrada_sobrecorriente, entrada_sobrecorriente, entrada_sobrecorriente] inicial))))"
proof -
  note c2 = corrida2 [THEN conjunct1] corrida2 [THEN conjunct2]
  note c3 = corrida3 [THEN conjunct1] corrida3 [THEN conjunct2]
  have f: "flotante entrada_normal" by (simp add: entrada_normal_def)
  have al: "en_alarma (fst (ejecutar str_fijo
      [entrada_sobrecorriente, entrada_sobrecorriente, entrada_sobrecorriente] inicial))"
    by (simp only: c3(1) en_alarma.simps)
  from doble_falla_terminal [OF refl c2(2) refl, of
         "[entrada_flotante_bajo, entrada_normal, entrada_normal]" B2 entrada_normal]
       doble_falla_terminal [OF refl c3(2) refl, of
         "[entrada_normal, entrada_flotante_bajo]" B2 entrada_normal]
       c2 al f
  show ?thesis by simp
qed

text \<open>
  C3 as stated fails: with both pumps failed after two passes, a pass with the float low
  does not enter the alarm loop, and it reads the float switch.
\<close>

theorem doble_falla_sigue_sensando_contraejemplo:
  "ambas_en_falla (snd (ejecutar str_fijo [entrada_sobrecorriente, entrada_sobrecorriente] inicial)) \<and>
   fst (ejecutar str_fijo
          [entrada_sobrecorriente, entrada_sobrecorriente, entrada_flotante_bajo] inicial)
     = Bucle_falla B2 \<and>
   desde (snd (ejecutar str_fijo [entrada_sobrecorriente, entrada_sobrecorriente] inicial))
         (snd (ejecutar str_fijo
            [entrada_sobrecorriente, entrada_sobrecorriente, entrada_flotante_bajo] inicial))
     = [Leer_pin 11, Pin_off 22] \<and>
   es_sensado (Leer_pin 11)"
  by (simp add: defs_corrida)

end
